theory Spec2Isabelle
  imports Main
begin

section \<open>Data model\<close>

text \<open>
  The authorization core of the lost-and-found backend: the \<open>auth\<close> middleware with its
  self-healing permission step, the permission predicates \<open>hasPermission\<close> and
  \<open>hasAnyPermission\<close>, and the route guards built from them.

  A MongoDB \<open>ObjectId\<close> is a natural number. A collection is keyed by \<open>_id\<close>, which the
  database keeps unique, so the user and item collections are maps from \<open>_id\<close> to the
  document. The permission collection is a list, because \<open>Permission.find\<close> returns its
  documents in order and that order shows in what is stored on an account.
\<close>

type_synonym oid = nat

text \<open>\<open>IPermission\<close>: a document of the permission collection (\<open>_id\<close>, \<open>name\<close>).\<close>

record permission_doc =
  pid :: oid
  pname :: string

text \<open>\<open>type Permission = string | IPermission\<close>: a grant as the predicates see it.\<close>

datatype permission = PName string | PDoc permission_doc

text \<open>
  A stored account. Its \<open>permissions\<close> field holds references (\<open>_id\<close>s) into the permission
  collection; the document's own \<open>_id\<close> is its key in the collection.
\<close>

record user_doc =
  employeeNumber :: string
  firstName :: string
  lastName :: string
  role :: string
  permissions :: "oid list"

text \<open>
  \<open>req.user\<close>: the identity the middleware attaches to the request. The guards test
  \<open>user.permissions\<close> for absence, so the field is optional here.
\<close>

record request_user =
  r_id :: oid
  r_employeeNumber :: string
  r_firstName :: string
  r_lastName :: string
  r_role :: string
  r_permissions :: "permission list option"

text \<open>An item document, lost or delivered: who found it, and whether it is archived.\<close>

record item =
  foundBy :: oid
  archived :: bool

record store =
  users :: "oid \<rightharpoonup> user_doc"
  catalog :: "permission_doc list"
  deliveredItems :: "oid \<rightharpoonup> item"
  lostItems :: "oid \<rightharpoonup> item"

subsection \<open>Tokens\<close>

text \<open>
  \<open>JwtPayload\<close>: what a token carries. Its \<open>_id\<close> is a well-formed \<open>ObjectId\<close>, as every
  token the application signs has it.
\<close>

record jwt_payload =
  j_id :: oid
  j_employeeNumber :: string
  j_role :: string
  j_permissions :: "string list"

text \<open>
  A bearer token as \<open>jwt.verify\<close> of the jsonwebtoken library sees it: a string that does
  not parse, or a header algorithm, the key that signed it, the payload and the \<open>exp\<close>
  claim (absent when the token was signed without an expiry).
\<close>

datatype jwt = Malformed | Jwt string string jwt_payload "nat option"

datatype verify_error = JsonWebTokenError | TokenExpiredError

text \<open>
  \<open>jwt.verify(token, secret, {algorithms})\<close> at clock time \<open>now\<close>: the library throws
  \<open>JsonWebTokenError\<close> for a malformed token, an algorithm that is not allowed or a
  signature that does not verify under \<open>secret\<close>, then \<open>TokenExpiredError\<close> when
  \<open>now >= exp\<close>; otherwise it returns the payload.
\<close>

fun jwt_verify :: "jwt \<Rightarrow> string \<Rightarrow> string list \<Rightarrow> nat \<Rightarrow> verify_error + jwt_payload" where
  "jwt_verify Malformed secret algorithms now = Inl JsonWebTokenError"
| "jwt_verify (Jwt alg signing_key payload exp) secret algorithms now =
     (if alg \<notin> set algorithms then Inl JsonWebTokenError
      else if signing_key \<noteq> secret then Inl JsonWebTokenError
      else (case exp of
              None \<Rightarrow> Inr payload
            | Some e \<Rightarrow> if e \<le> now then Inl TokenExpiredError else Inr payload))"

text \<open>\<open>process.env.JWT_SECRET || 'your-secret-key'\<close>: unset or empty falls back.\<close>

definition jwt_secret :: "string option \<Rightarrow> string" where
  "jwt_secret env =
     (case env of
        None \<Rightarrow> ''your-secret-key''
      | Some k \<Rightarrow> if k = [] then ''your-secret-key'' else k)"

subsection \<open>Responses\<close>

datatype code =
    NO_TOKEN | INVALID_TOKEN | USER_NOT_FOUND | AUTH_ERROR
  | PERMISSION_DENIED | PERMISSION_ERROR | INSUFFICIENT_PERMISSIONS

text \<open>\<open>res.status(n).json({message, code})\<close>: the status and the machine-readable code if any.\<close>

datatype response = Response nat "code option"

text \<open>A middleware or guard either answers the request or calls \<open>next()\<close>.\<close>

datatype 'a outcome = Respond response | Next 'a

record request =
  user :: "request_user option"
  token :: "jwt option"

section \<open>Store operations\<close>

text \<open>\<open>Permission.findById\<close>: the first document with that \<open>_id\<close>.\<close>

definition findPermissionById :: "permission_doc list \<Rightarrow> oid \<Rightarrow> permission_doc option" where
  "findPermissionById cat i = find (\<lambda>p. pid p = i) cat"

text \<open>
  \<open>.populate('permissions')\<close>: every reference is replaced by the document it names; a
  reference that names no document is dropped from the array.
\<close>

definition populate :: "permission_doc list \<Rightarrow> oid list \<Rightarrow> permission_doc list" where
  "populate cat ids = List.map_filter (findPermissionById cat) ids"

text \<open>\<open>User.findOne({_id, employeeNumber})\<close>.\<close>

definition findOneUser :: "store \<Rightarrow> oid \<Rightarrow> string \<Rightarrow> user_doc option" where
  "findOneUser s i emp =
     (case users s i of
        None \<Rightarrow> None
      | Some u \<Rightarrow> if employeeNumber u = emp then Some u else None)"

text \<open>\<open>User.findByIdAndUpdate(id, {$set: {permissions: ps}}, {new: true})\<close>.\<close>

definition findByIdAndUpdate_set :: "store \<Rightarrow> oid \<Rightarrow> oid list \<Rightarrow> store \<times> user_doc option" where
  "findByIdAndUpdate_set s i ps =
     (case users s i of
        None \<Rightarrow> (s, None)
      | Some u \<Rightarrow> (s\<lparr>users := (users s)(i \<mapsto> u\<lparr>permissions := ps\<rparr>)\<rparr>, Some (u\<lparr>permissions := ps\<rparr>)))"

text \<open>
  \<open>User.findByIdAndUpdate(id, {$push: {permissions: {$each: ps}}}, {new: true})\<close>: the
  pushed permission documents are stored as their \<open>_id\<close>s, after what is already there.
\<close>

definition findByIdAndUpdate_push :: "store \<Rightarrow> oid \<Rightarrow> oid list \<Rightarrow> store \<times> user_doc option" where
  "findByIdAndUpdate_push s i ps =
     (case users s i of
        None \<Rightarrow> (s, None)
      | Some u \<Rightarrow> (s\<lparr>users := (users s)(i \<mapsto> u\<lparr>permissions := permissions u @ ps\<rparr>)\<rparr>,
                   Some (u\<lparr>permissions := permissions u @ ps\<rparr>)))"

text \<open>A loaded, populated user document as a plain object (\<open>toObject\<close>).\<close>

definition toObject :: "permission_doc list \<Rightarrow> oid \<Rightarrow> user_doc \<Rightarrow> request_user" where
  "toObject cat i u =
     \<lparr>r_id = i, r_employeeNumber = employeeNumber u, r_firstName = firstName u,
      r_lastName = lastName u, r_role = role u,
      r_permissions = Some (map PDoc (populate cat (permissions u)))\<rparr>"

section \<open>The middleware\<close>

text \<open>
  \<open>matchesPermission\<close>: a string grant matches by equality, a document by its \<open>name\<close>
  (both document branches of the source compare \<open>permission.name\<close>).
\<close>

fun matchesPermission :: "permission \<Rightarrow> string \<Rightarrow> bool" where
  "matchesPermission (PName p) permissionName = (p = permissionName)"
| "matchesPermission (PDoc p) permissionName = (pname p = permissionName)"

text \<open>The names the non-admin branch of \<open>auth\<close> asks the permission collection for.\<close>

definition requiredNames :: "string list" where
  "requiredNames =
     [''view_dashboard'', ''view_all_items'', ''view_own_items'', ''create_items'',
      ''edit_all_items'', ''edit_own_items'', ''delete_all_items'', ''delete_own_items'',
      ''manage_users'', ''generate_reports'', ''deliver_items'', ''view_delivered_items'',
      ''view_own_delivered_items'', ''revert_delivered_status'']"

text \<open>\<open>Permission.find({name: {$in: requiredNames}})\<close>.\<close>

definition requiredPermissions :: "store \<Rightarrow> permission_doc list" where
  "requiredPermissions s = filter (\<lambda>p. pname p \<in> set requiredNames) (catalog s)"

text \<open>
  \<open>missingPermissions\<close>: the required documents whose name is not among the names of the
  account's populated permissions.
\<close>

definition missingPermissions :: "store \<Rightarrow> user_doc \<Rightarrow> permission_doc list" where
  "missingPermissions s u =
     filter (\<lambda>p. pname p \<notin> set (map pname (populate (catalog s) (permissions u))))
       (requiredPermissions s)"

text \<open>
  \<open>auth\<close>. The header is the bearer token after \<open>'Bearer '\<close> is stripped, \<open>None\<close> when the
  header is absent or empty. The result is the store after the request and either the
  response sent or the request as handed to \<open>next()\<close>. The store itself never fails here,
  so the outer \<open>500 AUTH_ERROR\<close> handler has no branch.
\<close>

definition auth :: "string option \<Rightarrow> nat \<Rightarrow> store \<Rightarrow> jwt option \<Rightarrow> store \<times> request outcome" where
  "auth env now s header =
     (case header of
        None \<Rightarrow> (s, Respond (Response 401 (Some NO_TOKEN)))
      | Some tok \<Rightarrow>
          (case jwt_verify tok (jwt_secret env) [''HS256''] now of
             Inl err \<Rightarrow> (s, Respond (Response 401 (Some INVALID_TOKEN)))
           | Inr decoded \<Rightarrow>
               (case findOneUser s (j_id decoded) (j_employeeNumber decoded) of
                  None \<Rightarrow> (s, Respond (Response 401 (Some USER_NOT_FOUND)))
                | Some u \<Rightarrow>
                    if role u = ''admin'' then
                      (let allPermissions = catalog s;
                           (s', updatedUser) =
                              findByIdAndUpdate_set s (j_id decoded) (map pid allPermissions)
                       in (s', Next \<lparr>user = map_option (toObject (catalog s') (j_id decoded)) updatedUser,
                                     token = Some tok\<rparr>))
                    else
                      (let missing = missingPermissions s u;
                           s' = (if length missing > 0
                                 then fst (findByIdAndUpdate_push s (j_id decoded) (map pid missing))
                                 else s);
                           userObject = toObject (catalog s) (j_id decoded) u
                       in (s', Next \<lparr>user = Some userObject, token = Some tok\<rparr>)))))"

text \<open>\<open>hasPermission(permissionName)\<close>.\<close>

definition hasPermission :: "string \<Rightarrow> request \<Rightarrow> unit outcome" where
  "hasPermission permissionName req =
     (case user req of
        None \<Rightarrow> Respond (Response 403 (Some PERMISSION_DENIED))
      | Some u \<Rightarrow>
          (case r_permissions u of
             None \<Rightarrow> Respond (Response 403 (Some PERMISSION_DENIED))
           | Some ps \<Rightarrow>
               if list_ex (\<lambda>p. matchesPermission p permissionName) ps then Next ()
               else Respond (Response 403 (Some PERMISSION_DENIED))))"

text \<open>
  \<open>user?.permissions?.some(p => permissionNames.some(name => matchesPermission(p, name)))\<close>,
  \<open>undefined\<close> (falsy) when the user or its permissions are absent.
\<close>

definition someMatch :: "request_user option \<Rightarrow> string list \<Rightarrow> bool" where
  "someMatch uo permissionNames =
     (case uo of
        None \<Rightarrow> False
      | Some u \<Rightarrow>
          (case r_permissions u of
             None \<Rightarrow> False
           | Some ps \<Rightarrow> list_ex (\<lambda>p. list_ex (\<lambda>n. matchesPermission p n) permissionNames) ps))"

text \<open>\<open>hasAnyPermission(permissionNames)\<close>.\<close>

definition hasAnyPermission :: "string list \<Rightarrow> request \<Rightarrow> unit outcome" where
  "hasAnyPermission permissionNames req =
     (if map_option r_role (user req) = Some ''admin'' then Next ()
      else if \<not> someMatch (user req) permissionNames
        then Respond (Response 403 (Some PERMISSION_DENIED))
      else Next ())"

text \<open>\<open>checkOwnership\<close>.\<close>

definition checkOwnership :: "oid \<Rightarrow> oid \<Rightarrow> bool" where
  "checkOwnership resourceId userId = (resourceId = userId)"

section \<open>Route guards\<close>

text \<open>
  The handlers write \<open>p && matchesPermission(p, name)\<close>: an empty string grant is falsy
  and never matches.
\<close>

fun andMatches :: "permission \<Rightarrow> string \<Rightarrow> bool" where
  "andMatches (PName p) permissionName = (p \<noteq> [] \<and> matchesPermission (PName p) permissionName)"
| "andMatches (PDoc p) permissionName = matchesPermission (PDoc p) permissionName"

text \<open>A middleware that called \<open>next()\<close> hands over to what follows it in the route.\<close>

definition and_then :: "unit outcome \<Rightarrow> unit outcome \<Rightarrow> unit outcome" where
  "and_then first rest = (case first of Respond r \<Rightarrow> Respond r | Next _ \<Rightarrow> rest)"

subsection \<open>delivered-items.routes.ts\<close>

text \<open>
  \<open>router.delete('/:id')\<close>, the handler up to its permission check: \<open>Next ()\<close> is where it
  goes on to delete the item. Reading \<open>req.user.role\<close> of an absent user throws, which
  the handler's \<open>catch\<close> answers with 500.
\<close>

definition delivered_delete_check :: "store \<Rightarrow> request \<Rightarrow> oid \<Rightarrow> unit outcome" where
  "delivered_delete_check s req i =
     (case deliveredItems s i of
        None \<Rightarrow> Respond (Response 404 None)
      | Some it \<Rightarrow>
          (case user req of
             None \<Rightarrow> Respond (Response 500 None)
           | Some u \<Rightarrow>
               (let isAdmin = (r_role u = ''admin'');
                    hasDeleteAllPermission =
                      (case r_permissions u of
                         None \<Rightarrow> False
                       | Some ps \<Rightarrow> list_ex (\<lambda>p. andMatches p ''delete_all_items'') ps);
                    isOwner = (foundBy it = r_id u)
                in if \<not> isAdmin \<and> \<not> hasDeleteAllPermission \<and> \<not> isOwner
                   then Respond (Response 403 (Some INSUFFICIENT_PERMISSIONS))
                   else Next ())))"

text \<open>The route after \<open>auth\<close>: \<open>hasAnyPermission(['delete_all_items', 'delete_own_items'])\<close>, then the handler.\<close>

definition delivered_delete_guard :: "store \<Rightarrow> request \<Rightarrow> oid \<Rightarrow> unit outcome" where
  "delivered_delete_guard s req i =
     and_then (hasAnyPermission [''delete_all_items'', ''delete_own_items''] req)
       (delivered_delete_check s req i)"

text \<open>
  \<open>router.put('/:id')\<close>, the handler up to its permission check; \<open>permissions\<close> is
  \<open>req.user.permissions\<close> when that is an array and \<open>[]\<close> otherwise.
\<close>

definition delivered_put_check :: "store \<Rightarrow> request \<Rightarrow> oid \<Rightarrow> unit outcome" where
  "delivered_put_check s req i =
     (case deliveredItems s i of
        None \<Rightarrow> Respond (Response 404 None)
      | Some it \<Rightarrow>
          (case user req of
             None \<Rightarrow> Respond (Response 500 None)
           | Some u \<Rightarrow>
               if r_role u = ''admin'' then Next ()
               else
                 (let perms = (case r_permissions u of None \<Rightarrow> [] | Some ps \<Rightarrow> ps);
                      hasEditAllPermission = list_ex (\<lambda>p. andMatches p ''edit_all_items'') perms
                  in if \<not> hasEditAllPermission \<and> foundBy it \<noteq> r_id u
                     then Respond (Response 403 None)
                     else Next ())))"

definition delivered_put_guard :: "store \<Rightarrow> request \<Rightarrow> oid \<Rightarrow> unit outcome" where
  "delivered_put_guard s req i =
     and_then (hasAnyPermission [''edit_all_items'', ''edit_own_items''] req)
       (delivered_put_check s req i)"

text \<open>
  \<open>router.post('/:id/revert')\<close> after \<open>auth\<close>: \<open>hasPermission('admin')\<close>, then the handler,
  which looks the item up and goes on to revert it.
\<close>

definition delivered_revert_guard :: "store \<Rightarrow> request \<Rightarrow> oid \<Rightarrow> unit outcome" where
  "delivered_revert_guard s req i =
     and_then (hasPermission ''admin'' req)
       (case deliveredItems s i of
          None \<Rightarrow> Respond (Response 404 None)
        | Some it \<Rightarrow> Next ())"

subsection \<open>items.routes.ts\<close>

text \<open>
  \<open>router.put('/:id')\<close> and \<open>router.delete('/:id')\<close>: the only middleware is \<open>auth\<close>, and
  each handler looks the item up and goes on to change or delete it.
\<close>

definition items_put_guard :: "store \<Rightarrow> request \<Rightarrow> oid \<Rightarrow> unit outcome" where
  "items_put_guard s req i =
     (case lostItems s i of
        None \<Rightarrow> Respond (Response 404 None)
      | Some it \<Rightarrow> Next ())"

definition items_delete_guard :: "store \<Rightarrow> request \<Rightarrow> oid \<Rightarrow> unit outcome" where
  "items_delete_guard s req i =
     (case lostItems s i of
        None \<Rightarrow> Respond (Response 404 None)
      | Some it \<Rightarrow> Next ())"

subsection \<open>permission.routes.ts\<close>

text \<open>\<open>Permission.findByIdAndDelete\<close>: removes the first document with that \<open>_id\<close> and returns it.\<close>

definition findByIdAndDelete :: "permission_doc list \<Rightarrow> oid \<Rightarrow> permission_doc list \<times> permission_doc option" where
  "findByIdAndDelete cat i =
     (case findPermissionById cat i of
        None \<Rightarrow> (cat, None)
      | Some p \<Rightarrow> (remove1 p cat, Some p))"

text \<open>
  \<open>User.updateMany({permissions: id}, {$pull: {permissions: id}})\<close>: every account that
  holds the reference loses every occurrence of it.
\<close>

definition updateMany_pull :: "(oid \<rightharpoonup> user_doc) \<Rightarrow> oid \<Rightarrow> (oid \<rightharpoonup> user_doc)" where
  "updateMany_pull us i =
     (\<lambda>k. map_option
             (\<lambda>u. if i \<in> set (permissions u)
                   then u\<lparr>permissions := removeAll i (permissions u)\<rparr> else u)
             (us k))"

text \<open>\<open>router.delete('/:id')\<close> of the permission routes, after \<open>auth\<close>.\<close>

definition permission_delete_handler :: "store \<Rightarrow> request \<Rightarrow> oid \<Rightarrow> store \<times> response" where
  "permission_delete_handler s req i =
     (case user req of
        None \<Rightarrow> (s, Response 500 None)
      | Some ru \<Rightarrow>
          (case users s (r_id ru) of
             None \<Rightarrow> (s, Response 403 None)
           | Some u \<Rightarrow>
               if role u \<noteq> ''admin'' then (s, Response 403 None)
               else
                 (case findByIdAndDelete (catalog s) i of
                    (cat', None) \<Rightarrow> (s\<lparr>catalog := cat'\<rparr>, Response 404 None)
                  | (cat', Some permission) \<Rightarrow>
                      (s\<lparr>catalog := cat', users := updateMany_pull (users s) (pid permission)\<rparr>,
                       Response 200 None))))"

text \<open>The whole route: \<open>auth\<close>, then the handler on the store \<open>auth\<close> left.\<close>

definition permission_delete_route ::
  "string option \<Rightarrow> nat \<Rightarrow> store \<Rightarrow> jwt option \<Rightarrow> oid \<Rightarrow> store \<times> response" where
  "permission_delete_route env now s header i =
     (case auth env now s header of
        (s', Respond r) \<Rightarrow> (s', r)
      | (s', Next req) \<Rightarrow> permission_delete_handler s' req i)"

section \<open>Role policy and the seeded catalog\<close>

text \<open>\<open>ROLE_PERMISSIONS\<close> of user.routes.ts: the default permission names of each role.\<close>

definition ROLE_PERMISSIONS :: "string \<Rightarrow> string list" where
  "ROLE_PERMISSIONS r =
     (if r = ''admin'' then
        [''view_dashboard'', ''view_all_items'', ''view_own_items'', ''create_items'',
         ''edit_all_items'', ''edit_own_items'', ''delete_all_items'', ''delete_own_items'',
         ''manage_users'', ''generate_reports'', ''deliver_items'', ''view_delivered_items'']
      else if r = ''supervisor'' then
        [''view_dashboard'', ''view_all_items'', ''view_own_items'', ''create_items'',
         ''edit_all_items'', ''edit_own_items'', ''delete_all_items'', ''delete_own_items'',
         ''deliver_items'', ''view_delivered_items'']
      else if r = ''employee'' then
        [''view_dashboard'', ''view_own_items'', ''create_items'', ''edit_own_items'',
         ''delete_own_items'', ''deliver_items'', ''view_delivered_items'']
      else [])"

text \<open>\<open>PERMISSIONS\<close> of the initialisation script: the thirteen names it seeds.\<close>

definition PERMISSIONS :: "string list" where
  "PERMISSIONS =
     [''view_dashboard'', ''view_all_items'', ''view_own_items'', ''create_items'',
      ''edit_all_items'', ''edit_own_items'', ''delete_all_items'', ''delete_own_items'',
      ''manage_users'', ''generate_reports'', ''deliver_items'', ''view_delivered_items'',
      ''revert_delivered_status'']"

text \<open>The documents the script creates for a list of names, numbered from \<open>n\<close>.\<close>

fun seed :: "oid \<Rightarrow> string list \<Rightarrow> permission_doc list" where
  "seed n [] = []"
| "seed n (x # xs) = \<lparr>pid = n, pname = x\<rparr> # seed (Suc n) xs"

section \<open>The composite guard as the specification words it\<close>

text \<open>\<open>HasPermission(identity, name)\<close>: the name is in the identity's grant set.\<close>

definition HasPermission :: "request_user \<Rightarrow> string \<Rightarrow> bool" where
  "HasPermission u n =
     (case r_permissions u of
        None \<Rightarrow> False
      | Some ps \<Rightarrow> list_ex (\<lambda>p. matchesPermission p n) ps)"

text \<open>
  \<open>canActOnResource = role==admin OR HasPermission(identity, "<action>_all_items") OR
  (HasPermission(identity, "<action>_own_items") AND Owns(identity, resource.foundBy))\<close>.
\<close>

definition canActOnResource :: "request_user \<Rightarrow> string \<Rightarrow> oid \<Rightarrow> bool" where
  "canActOnResource u action owner =
     (r_role u = ''admin''
      \<or> HasPermission u (action @ ''_all_items'')
      \<or> (HasPermission u (action @ ''_own_items'') \<and> checkOwnership owner (r_id u)))"

text \<open>
  \<open>missing = RolePolicy[role].baseline - currentGrantSet\<close>, a set difference by
  permission name: the names of the role's baseline that the account's populated
  permissions do not carry.
\<close>

definition baselineMissing :: "store \<Rightarrow> user_doc \<Rightarrow> string list" where
  "baselineMissing s u =
     filter (\<lambda>n. n \<notin> set (map pname (populate (catalog s) (permissions u))))
       (ROLE_PERMISSIONS (role u))"

section \<open>Whole routes\<close>

text \<open>\<open>router.post('/:id/revert', auth, hasPermission('admin'), handler)\<close>.\<close>

definition delivered_revert_route ::
  "string option \<Rightarrow> nat \<Rightarrow> store \<Rightarrow> jwt option \<Rightarrow> oid \<Rightarrow> store \<times> unit outcome" where
  "delivered_revert_route env now s header i =
     (case auth env now s header of
        (s', Respond r) \<Rightarrow> (s', Respond r)
      | (s', Next req) \<Rightarrow> (s', delivered_revert_guard s' req i))"

section \<open>A concrete store\<close>

text \<open>
  The catalog as the initialisation script leaves an empty database, an admin created
  with the twelve admin defaults of \<open>ROLE_PERMISSIONS\<close>, an employee with the seven
  employee defaults, an employee whose grants are empty, one delivered item and one lost
  item, both found by the admin.
\<close>

definition ex_catalog :: "permission_doc list" where
  "ex_catalog = seed 101 PERMISSIONS"

definition ex_admin :: user_doc where
  "ex_admin = \<lparr>employeeNumber = ''AC000001'', firstName = ''Admin'', lastName = ''User'',
                role = ''admin'', permissions = [101, 102, 103, 104, 105, 106, 107, 108, 109, 110, 111, 112]\<rparr>"

definition ex_employee :: user_doc where
  "ex_employee = \<lparr>employeeNumber = ''E001'', firstName = ''Eve'', lastName = ''Employee'',
                   role = ''employee'', permissions = [101, 103, 104, 106, 108, 111, 112]\<rparr>"

definition ex_legacy :: user_doc where
  "ex_legacy = \<lparr>employeeNumber = ''E002'', firstName = ''Leo'', lastName = ''Legacy'',
                 role = ''employee'', permissions = []\<rparr>"

definition ex_store :: store where
  "ex_store =
     \<lparr>users = [201 \<mapsto> ex_admin, 202 \<mapsto> ex_employee, 203 \<mapsto> ex_legacy],
      catalog = ex_catalog,
      deliveredItems = [301 \<mapsto> \<lparr>foundBy = 201, archived = False\<rparr>],
      lostItems = [401 \<mapsto> \<lparr>foundBy = 201, archived = False\<rparr>]\<rparr>"

text \<open>A token signed with the fallback secret, for account \<open>i\<close>, expiring at \<open>e\<close>.\<close>

definition ex_token :: "oid \<Rightarrow> string \<Rightarrow> string \<Rightarrow> nat \<Rightarrow> jwt" where
  "ex_token i emp r e =
     Jwt ''HS256'' ''your-secret-key''
       \<lparr>j_id = i, j_employeeNumber = emp, j_role = r, j_permissions = []\<rparr> (Some e)"

text \<open>The employee of the store as \<open>auth\<close> hands it on: the seven employee defaults, populated.\<close>

definition ex_identity :: request_user where
  "ex_identity = toObject ex_catalog 202 ex_employee"

text \<open>The admin of the store as \<open>auth\<close> hands it on: every catalog document, populated.\<close>

definition ex_admin_identity :: request_user where
  "ex_admin_identity =
     \<lparr>r_id = 201, r_employeeNumber = ''AC000001'', r_firstName = ''Admin'',
      r_lastName = ''User'', r_role = ''admin'', r_permissions = Some (map PDoc ex_catalog)\<rparr>"

definition ex_admin_request :: request where
  "ex_admin_request = \<lparr>user = Some ex_admin_identity, token = None\<rparr>"

section \<open>Facts about the store operations\<close>

lemma findPermissionById_pid: "findPermissionById cat i = Some p \<Longrightarrow> pid p = i"
  by (auto simp: findPermissionById_def find_Some_iff)

lemma findPermissionById_distinct:
  "distinct (map pid cat) \<Longrightarrow> p \<in> set cat \<Longrightarrow> findPermissionById cat (pid p) = Some p"
  unfolding findPermissionById_def
  by (induction cat) auto

lemma populate_append: "populate cat (xs @ ys) = populate cat xs @ populate cat ys"
  by (simp add: populate_def map_filter_def)

text \<open>With unique \<open>_id\<close>s, populating the references of catalog documents gives them back.\<close>

lemma populate_map_pid:
  "distinct (map pid cat) \<Longrightarrow> set ps \<subseteq> set cat \<Longrightarrow> populate cat (map pid ps) = ps"
proof (induction ps)
  case Nil
  then show ?case by (simp add: populate_def map_filter_simps)
next
  case (Cons p ps)
  then have "findPermissionById cat (pid p) = Some p"
    by (simp add: findPermissionById_distinct)
  with Cons show ?case by (simp add: populate_def map_filter_simps)
qed

lemma findOneUser_Some:
  "findOneUser s i emp = Some u \<Longrightarrow> users s i = Some u \<and> employeeNumber u = emp"
  by (auto simp: findOneUser_def split: option.splits if_splits)

lemma findOneUser_upd:
  "findOneUser s i emp = Some u \<Longrightarrow>
   findOneUser (s\<lparr>users := (users s)(i \<mapsto> u\<lparr>permissions := ps\<rparr>)\<rparr>) i emp
     = Some (u\<lparr>permissions := ps\<rparr>)"
  by (auto simp: findOneUser_def split: option.splits if_splits)

lemma jwt_verify_payload:
  "jwt_verify tok k algs n1 = Inr d \<Longrightarrow> jwt_verify tok k algs n2 = Inr d' \<Longrightarrow> d' = d"
  by (cases tok) (auto split: if_splits option.splits)

text \<open>A token that fails verification keeps failing as the clock advances.\<close>

lemma jwt_verify_later:
  "now1 \<le> now2 \<Longrightarrow> jwt_verify tok k algs now1 = Inl e \<Longrightarrow>
   \<exists>e'. jwt_verify tok k algs now2 = Inl e'"
  by (cases tok) (auto split: if_splits option.splits)

section \<open>What \<open>auth\<close> does to the store and to the request\<close>

lemma missingPermissions_subset: "set (missingPermissions s u) \<subseteq> set (catalog s)"
  by (auto simp: missingPermissions_def requiredPermissions_def)

lemma missingPermissions_catalog_only:
  "catalog s' = catalog s \<Longrightarrow> missingPermissions s' u = missingPermissions s u"
  by (simp add: missingPermissions_def requiredPermissions_def)

text \<open>Once the missing permissions are pushed, nothing is missing any more.\<close>

lemma missingPermissions_after_push:
  assumes "distinct (map pid (catalog s))"
  shows "missingPermissions s
           (u\<lparr>permissions := permissions u @ map pid (missingPermissions s u)\<rparr>) = []"
proof -
  have "populate (catalog s) (map pid (missingPermissions s u)) = missingPermissions s u"
    using assms missingPermissions_subset by (rule populate_map_pid)
  then have pop: "populate (catalog s) (permissions u @ map pid (missingPermissions s u))
      = populate (catalog s) (permissions u) @ missingPermissions s u"
    by (simp add: populate_append)
  show ?thesis
    unfolding missingPermissions_def [of s "u\<lparr>permissions := _\<rparr>"]
    apply (simp add: pop filter_empty_conv)
    apply (auto simp: missingPermissions_def)
    done
qed

text \<open>The store after \<open>auth\<close>, branch by branch.\<close>

lemma auth_store:
  "fst (auth env now s header) =
     (case header of
        None \<Rightarrow> s
      | Some tok \<Rightarrow>
          (case jwt_verify tok (jwt_secret env) [''HS256''] now of
             Inl err \<Rightarrow> s
           | Inr d \<Rightarrow>
               (case findOneUser s (j_id d) (j_employeeNumber d) of
                  None \<Rightarrow> s
                | Some u \<Rightarrow>
                    if role u = ''admin''
                    then s\<lparr>users := (users s)(j_id d \<mapsto> u\<lparr>permissions := map pid (catalog s)\<rparr>)\<rparr>
                    else if missingPermissions s u = [] then s
                    else s\<lparr>users := (users s)(j_id d \<mapsto>
                            u\<lparr>permissions := permissions u @ map pid (missingPermissions s u)\<rparr>)\<rparr>)))"
  by (auto simp: auth_def findByIdAndUpdate_set_def findByIdAndUpdate_push_def Let_def
           dest: findOneUser_Some split: option.splits sum.splits)

text \<open>
  What a non-admin account is handed on as: the document as loaded, whatever was pushed.
\<close>

lemma auth_nonadmin_identity:
  assumes "jwt_verify tok (jwt_secret env) [''HS256''] now = Inr d"
      and "findOneUser s (j_id d) (j_employeeNumber d) = Some u"
      and "role u \<noteq> ''admin''"
  shows "snd (auth env now s (Some tok))
           = Next \<lparr>user = Some (toObject (catalog s) (j_id d) u), token = Some tok\<rparr>"
  using assms by (simp add: auth_def Let_def)

lemma auth_store_settled_admin:
  assumes "jwt_verify tok (jwt_secret env) [''HS256''] now = Inr d"
      and "findOneUser s (j_id d) (j_employeeNumber d) = Some u"
      and "role u = ''admin''" and "permissions u = map pid (catalog s)"
  shows "fst (auth env now s (Some tok)) = s"
proof -
  from assms(2) have "users s (j_id d) = Some u" by (simp add: findOneUser_Some)
  then have m: "(users s)(j_id d \<mapsto> u) = users s" by (simp add: fun_upd_idem)
  have r: "u\<lparr>permissions := map pid (catalog s)\<rparr> = u" using assms(4) by simp
  have "s\<lparr>users := (users s)(j_id d \<mapsto> u\<lparr>permissions := map pid (catalog s)\<rparr>)\<rparr> = s"
    unfolding r m by simp
  then show ?thesis using assms(1-3) by (simp add: auth_store)
qed

lemma auth_store_settled_other:
  assumes "jwt_verify tok (jwt_secret env) [''HS256''] now = Inr d"
      and "findOneUser s (j_id d) (j_employeeNumber d) = Some u"
      and "role u \<noteq> ''admin''" and "missingPermissions s u = []"
  shows "fst (auth env now s (Some tok)) = s"
  using assms by (simp add: auth_store)

lemma auth_response_not_200:
  "auth env now s header = (s', Respond r) \<Longrightarrow> r \<noteq> Response 200 None"
  by (auto simp: auth_def Let_def split: option.splits sum.splits if_splits prod.splits)

section \<open>The concrete store, evaluated\<close>

lemma ex_catalog_eval:
  "ex_catalog =
    [\<lparr>pid = 101, pname = ''view_dashboard''\<rparr>, \<lparr>pid = 102, pname = ''view_all_items''\<rparr>,
     \<lparr>pid = 103, pname = ''view_own_items''\<rparr>, \<lparr>pid = 104, pname = ''create_items''\<rparr>,
     \<lparr>pid = 105, pname = ''edit_all_items''\<rparr>, \<lparr>pid = 106, pname = ''edit_own_items''\<rparr>,
     \<lparr>pid = 107, pname = ''delete_all_items''\<rparr>, \<lparr>pid = 108, pname = ''delete_own_items''\<rparr>,
     \<lparr>pid = 109, pname = ''manage_users''\<rparr>, \<lparr>pid = 110, pname = ''generate_reports''\<rparr>,
     \<lparr>pid = 111, pname = ''deliver_items''\<rparr>, \<lparr>pid = 112, pname = ''view_delivered_items''\<rparr>,
     \<lparr>pid = 113, pname = ''revert_delivered_status''\<rparr>]"
  by (simp add: ex_catalog_def PERMISSIONS_def)

lemma ex_pids:
  "map pid ex_catalog = [101, 102, 103, 104, 105, 106, 107, 108, 109, 110, 111, 112, 113]"
  by (simp add: ex_catalog_eval)

lemma ex_verify:
  "100 < e \<Longrightarrow> jwt_verify (ex_token i emp r e) (jwt_secret None) [''HS256''] 100
     = Inr \<lparr>j_id = i, j_employeeNumber = emp, j_role = r, j_permissions = []\<rparr>"
  by (simp add: ex_token_def jwt_secret_def)

lemma ex_populate_all:
  "populate ex_catalog [101, 102, 103, 104, 105, 106, 107, 108, 109, 110, 111, 112, 113]
     = ex_catalog"
  by (simp add: ex_catalog_eval populate_def map_filter_simps findPermissionById_def)

lemma ex_populate_employee:
  "populate ex_catalog [101, 103, 104, 106, 108, 111, 112] =
     [\<lparr>pid = 101, pname = ''view_dashboard''\<rparr>, \<lparr>pid = 103, pname = ''view_own_items''\<rparr>,
      \<lparr>pid = 104, pname = ''create_items''\<rparr>, \<lparr>pid = 106, pname = ''edit_own_items''\<rparr>,
      \<lparr>pid = 108, pname = ''delete_own_items''\<rparr>, \<lparr>pid = 111, pname = ''deliver_items''\<rparr>,
      \<lparr>pid = 112, pname = ''view_delivered_items''\<rparr>]"
  by (simp add: ex_catalog_eval populate_def map_filter_simps findPermissionById_def)

lemma ex_missing_employee:
  "missingPermissions ex_store ex_employee =
     [\<lparr>pid = 102, pname = ''view_all_items''\<rparr>, \<lparr>pid = 105, pname = ''edit_all_items''\<rparr>,
      \<lparr>pid = 107, pname = ''delete_all_items''\<rparr>, \<lparr>pid = 109, pname = ''manage_users''\<rparr>,
      \<lparr>pid = 110, pname = ''generate_reports''\<rparr>,
      \<lparr>pid = 113, pname = ''revert_delivered_status''\<rparr>]"
  unfolding missingPermissions_def requiredPermissions_def
  by (simp add: ex_store_def ex_employee_def ex_populate_employee)
     (simp add: ex_catalog_eval requiredNames_def)

lemma ex_missing_legacy: "missingPermissions ex_store ex_legacy = ex_catalog"
  unfolding missingPermissions_def requiredPermissions_def
  by (simp add: ex_store_def ex_legacy_def populate_def map_filter_simps)
     (simp add: ex_catalog_eval requiredNames_def)

lemma ex_identity_eval:
  "ex_identity =
     \<lparr>r_id = 202, r_employeeNumber = ''E001'', r_firstName = ''Eve'',
      r_lastName = ''Employee'', r_role = ''employee'',
      r_permissions = Some (map PDoc
        [\<lparr>pid = 101, pname = ''view_dashboard''\<rparr>, \<lparr>pid = 103, pname = ''view_own_items''\<rparr>,
         \<lparr>pid = 104, pname = ''create_items''\<rparr>, \<lparr>pid = 106, pname = ''edit_own_items''\<rparr>,
         \<lparr>pid = 108, pname = ''delete_own_items''\<rparr>, \<lparr>pid = 111, pname = ''deliver_items''\<rparr>,
         \<lparr>pid = 112, pname = ''view_delivered_items''\<rparr>])\<rparr>"
  by (simp add: ex_identity_def toObject_def ex_employee_def ex_populate_employee)

lemma ex_admin_auth:
  "auth None 100 ex_store (Some (ex_token 201 ''AC000001'' ''admin'' 1000))
     = (ex_store\<lparr>users := (users ex_store)(201 \<mapsto> ex_admin\<lparr>permissions := map pid ex_catalog\<rparr>)\<rparr>,
        Next \<lparr>user = Some \<lparr>r_id = 201, r_employeeNumber = ''AC000001'',
                             r_firstName = ''Admin'', r_lastName = ''User'', r_role = ''admin'',
                             r_permissions = Some (map PDoc ex_catalog)\<rparr>,
              token = Some (ex_token 201 ''AC000001'' ''admin'' 1000)\<rparr>)"
proof -
  have u: "findOneUser ex_store 201 ''AC000001'' = Some ex_admin"
    by (simp add: findOneUser_def ex_store_def ex_admin_def)
  have us: "users ex_store 201 = Some ex_admin" by (simp add: ex_store_def)
  have c: "catalog ex_store = ex_catalog" by (simp add: ex_store_def)
  have r: "role ex_admin = ''admin''" by (simp add: ex_admin_def)
  have o: "toObject ex_catalog 201 (ex_admin\<lparr>permissions := map pid ex_catalog\<rparr>)
      = \<lparr>r_id = 201, r_employeeNumber = ''AC000001'', r_firstName = ''Admin'',
         r_lastName = ''User'', r_role = ''admin'', r_permissions = Some (map PDoc ex_catalog)\<rparr>"
    by (simp add: toObject_def ex_pids ex_populate_all) (simp add: ex_admin_def)
  show ?thesis
    by (simp add: auth_def ex_verify u r findByIdAndUpdate_set_def us c o)
qed

lemma ex_legacy_auth:
  "auth None 100 ex_store (Some (ex_token 203 ''E002'' ''employee'' 1000))
     = (fst (findByIdAndUpdate_push ex_store 203 (map pid ex_catalog)),
        Next \<lparr>user = Some (toObject (catalog ex_store) 203 ex_legacy),
              token = Some (ex_token 203 ''E002'' ''employee'' 1000)\<rparr>)"
proof -
  have u: "findOneUser ex_store 203 ''E002'' = Some ex_legacy"
    by (simp add: findOneUser_def ex_store_def ex_legacy_def)
  have r: "role ex_legacy \<noteq> ''admin''" by (simp add: ex_legacy_def)
  have len: "ex_catalog \<noteq> []" by (simp add: ex_catalog_eval)
  show ?thesis by (simp add: auth_def ex_verify u r ex_missing_legacy len)
qed

lemma ex_legacy_pushed:
  "map_option permissions
     (users (fst (findByIdAndUpdate_push ex_store 203 (map pid ex_catalog))) 203)
     = Some [101, 102, 103, 104, 105, 106, 107, 108, 109, 110, 111, 112, 113]"
  by (simp add: findByIdAndUpdate_push_def ex_store_def ex_legacy_def ex_pids)

section \<open>Reconciliation\<close>

text \<open>
  C1. The claim: for a non-admin account, what reconciliation appends is exactly the
  baseline of the account's role minus its current grants, so an employee never receives
  \<open>manage_users\<close> or \<open>edit_all_items\<close> from it. The code asks the catalog for fourteen
  fixed names whatever the role. On the concrete store the employee holds exactly the
  seven employee defaults, so nothing of its baseline is missing; one authenticated
  request appends \<open>view_all_items\<close>, \<open>edit_all_items\<close>, \<open>delete_all_items\<close>,
  \<open>manage_users\<close>, \<open>generate_reports\<close> and \<open>revert_delivered_status\<close> to the stored
  account.
\<close>

theorem auth_grants_beyond_baseline:
  "baselineMissing ex_store ex_employee = []
   \<and> map pname (missingPermissions ex_store ex_employee)
       = [''view_all_items'', ''edit_all_items'', ''delete_all_items'', ''manage_users'',
          ''generate_reports'', ''revert_delivered_status'']
   \<and> map_option permissions
        (users (fst (auth None 100 ex_store (Some (ex_token 202 ''E001'' ''employee'' 1000)))) 202)
       = Some [101, 103, 104, 106, 108, 111, 112, 102, 105, 107, 109, 110, 113]
   \<and> findPermissionById (catalog ex_store) 109 = Some \<lparr>pid = 109, pname = ''manage_users''\<rparr>
   \<and> ''manage_users'' \<notin> set (ROLE_PERMISSIONS (role ex_employee))"
proof -
  have u: "findOneUser ex_store 202 ''E001'' = Some ex_employee"
    by (simp add: findOneUser_def ex_store_def ex_employee_def)
  have r: "role ex_employee \<noteq> ''admin''" by (simp add: ex_employee_def)
  have "fst (auth None 100 ex_store (Some (ex_token 202 ''E001'' ''employee'' 1000)))
      = fst (findByIdAndUpdate_push ex_store 202 [102, 105, 107, 109, 110, 113])"
    by (simp add: auth_def ex_verify u r ex_missing_employee)
  moreover have "map_option permissions
       (users (fst (findByIdAndUpdate_push ex_store 202 [102, 105, 107, 109, 110, 113])) 202)
      = Some [101, 103, 104, 106, 108, 111, 112, 102, 105, 107, 109, 110, 113]"
    by (simp add: findByIdAndUpdate_push_def ex_store_def ex_employee_def)
  moreover have "findPermissionById (catalog ex_store) 109
      = Some \<lparr>pid = 109, pname = ''manage_users''\<rparr>"
    by (simp add: ex_store_def ex_catalog_eval findPermissionById_def)
  moreover have "''manage_users'' \<notin> set (ROLE_PERMISSIONS (role ex_employee))"
    by (simp add: ex_employee_def ROLE_PERMISSIONS_def)
  moreover have "baselineMissing ex_store ex_employee = []"
    unfolding baselineMissing_def
    by (simp add: ex_store_def ex_employee_def ex_populate_employee)
       (simp add: ROLE_PERMISSIONS_def)
  ultimately show ?thesis by (simp add: ex_missing_employee)
qed

text \<open>
  C2. For an account with role \<open>admin\<close>, after the reconciliation step of an authenticated
  request the stored grant set is the \<open>_id\<close> of every document of the permission
  collection as it is read at that moment, whatever the collection holds and whatever
  the account held before; the collection itself is unchanged.
\<close>

theorem auth_admin_full_catalog:
  assumes "jwt_verify tok (jwt_secret env) [''HS256''] now = Inr d"
      and "users s (j_id d) = Some u"
      and "employeeNumber u = j_employeeNumber d"
      and "role u = ''admin''"
  shows "map_option permissions (users (fst (auth env now s (Some tok))) (j_id d))
           = Some (map pid (catalog s))
         \<and> catalog (fst (auth env now s (Some tok))) = catalog s"
  using assms by (simp add: auth_def findOneUser_def findByIdAndUpdate_set_def Let_def)

text \<open>
  The admin of the concrete store was created with twelve permissions, before
  \<open>revert_delivered_status\<close> joined the catalog; one request leaves it with all thirteen.
\<close>

theorem auth_admin_full_catalog_witness:
  "jwt_verify (ex_token 201 ''AC000001'' ''admin'' 1000) (jwt_secret None) [''HS256''] 100
     = Inr \<lparr>j_id = 201, j_employeeNumber = ''AC000001'', j_role = ''admin'', j_permissions = []\<rparr>
   \<and> users ex_store 201 = Some ex_admin
   \<and> employeeNumber ex_admin = ''AC000001''
   \<and> role ex_admin = ''admin''
   \<and> permissions ex_admin = [101, 102, 103, 104, 105, 106, 107, 108, 109, 110, 111, 112]
   \<and> map_option permissions
        (users (fst (auth None 100 ex_store (Some (ex_token 201 ''AC000001'' ''admin'' 1000)))) 201)
       = Some [101, 102, 103, 104, 105, 106, 107, 108, 109, 110, 111, 112, 113]"
proof -
  let ?d = "\<lparr>j_id = 201, j_employeeNumber = ''AC000001'', j_role = ''admin'', j_permissions = []\<rparr>"
  have h1: "jwt_verify (ex_token 201 ''AC000001'' ''admin'' 1000) (jwt_secret None) [''HS256''] 100
      = Inr ?d"
    by (simp add: ex_verify)
  have h2: "users ex_store (j_id ?d) = Some ex_admin" by (simp add: ex_store_def)
  have h3: "employeeNumber ex_admin = j_employeeNumber ?d" by (simp add: ex_admin_def)
  have h4: "role ex_admin = ''admin''" by (simp add: ex_admin_def)
  have c: "map pid (catalog ex_store)
      = [101, 102, 103, 104, 105, 106, 107, 108, 109, 110, 111, 112, 113]"
    by (simp add: ex_store_def ex_pids)
  have p: "permissions ex_admin = [101, 102, 103, 104, 105, 106, 107, 108, 109, 110, 111, 112]"
    by (simp add: ex_admin_def)
  from auth_admin_full_catalog [OF h1 h2 h3 h4] h1 h2 h3 h4 c p show ?thesis by simp
qed

text \<open>
  C3. The claim: when reconciliation appends permissions to a non-admin account, the
  identity handed to the rest of the request carries the appended grant set. The code
  builds the identity from the document it loaded before the update and discards the
  document the update returns. On the concrete store the employee with no grants is
  stored all thirteen permissions, and goes on with none.
\<close>

theorem auth_identity_is_stale:
  "snd (auth None 100 ex_store (Some (ex_token 203 ''E002'' ''employee'' 1000)))
     = Next \<lparr>user = Some \<lparr>r_id = 203, r_employeeNumber = ''E002'', r_firstName = ''Leo'',
                           r_lastName = ''Legacy'', r_role = ''employee'',
                           r_permissions = Some []\<rparr>,
              token = Some (ex_token 203 ''E002'' ''employee'' 1000)\<rparr>
   \<and> map_option permissions
        (users (fst (auth None 100 ex_store (Some (ex_token 203 ''E002'' ''employee'' 1000)))) 203)
     = Some [101, 102, 103, 104, 105, 106, 107, 108, 109, 110, 111, 112, 113]"
proof -
  have o: "toObject (catalog ex_store) 203 ex_legacy
      = \<lparr>r_id = 203, r_employeeNumber = ''E002'', r_firstName = ''Leo'',
         r_lastName = ''Legacy'', r_role = ''employee'', r_permissions = Some []\<rparr>"
    by (simp add: toObject_def ex_legacy_def populate_def map_filter_simps)
  show ?thesis unfolding ex_legacy_auth by (simp add: o ex_legacy_pushed)
qed

text \<open>
  C6. Reconciliation is idempotent on the stored grant set: with the permission
  collection unchanged (its \<open>_id\<close>s unique, as the database keeps them) and the clock not
  running backwards, the same request a second time leaves the store exactly as the
  first left it.
\<close>

theorem auth_idempotent:
  assumes dist: "distinct (map pid (catalog s))" and le: "now1 \<le> now2"
  shows "fst (auth env now2 (fst (auth env now1 s header)) header) = fst (auth env now1 s header)"
proof (cases header)
  case None
  then show ?thesis by (simp add: auth_store)
next
  case (Some tok)
  show ?thesis
  proof (cases "jwt_verify tok (jwt_secret env) [''HS256''] now1")
    case (Inl e)
    with le obtain e' where "jwt_verify tok (jwt_secret env) [''HS256''] now2 = Inl e'"
      using jwt_verify_later by blast
    with Inl show ?thesis by (simp add: auth_store Some)
  next
    case (Inr d)
    show ?thesis
    proof (cases "jwt_verify tok (jwt_secret env) [''HS256''] now2")
      case (Inl e2)
      then show ?thesis by (simp add: auth_store [of env now2] Some)
    next
      case Inr2: (Inr d2)
      with Inr have d2: "d2 = d" by (rule jwt_verify_payload)
      show ?thesis
      proof (cases "findOneUser s (j_id d) (j_employeeNumber d)")
        case None
        then have first: "fst (auth env now1 s (Some tok)) = s" by (simp add: auth_store Inr)
        from None Inr2 d2 show ?thesis unfolding Some first by (simp add: auth_store)
      next
        case found: (Some u)
        show ?thesis
        proof (cases "role u = ''admin''")
          case True
          let ?u' = "u\<lparr>permissions := map pid (catalog s)\<rparr>"
          let ?s' = "s\<lparr>users := (users s)(j_id d \<mapsto> ?u')\<rparr>"
          have first: "fst (auth env now1 s (Some tok)) = ?s'"
            using found True by (simp add: auth_store Inr)
          have "fst (auth env now2 ?s' (Some tok)) = ?s'"
          proof (rule auth_store_settled_admin)
            show "jwt_verify tok (jwt_secret env) [''HS256''] now2 = Inr d" using Inr2 d2 by simp
            show "findOneUser ?s' (j_id d) (j_employeeNumber d) = Some ?u'"
              using found by (rule findOneUser_upd)
            show "role ?u' = ''admin''" using True by simp
            show "permissions ?u' = map pid (catalog ?s')" by simp
          qed
          then show ?thesis unfolding Some first .
        next
          case False
          show ?thesis
          proof (cases "missingPermissions s u = []")
            case True
            have first: "fst (auth env now1 s (Some tok)) = s"
              using found False True by (simp add: auth_store Inr)
            have "fst (auth env now2 s (Some tok)) = s"
              using Inr2 d2 found False True by (intro auth_store_settled_other) auto
            then show ?thesis unfolding Some first .
          next
            case missing: False
            let ?u' = "u\<lparr>permissions := permissions u @ map pid (missingPermissions s u)\<rparr>"
            let ?s' = "s\<lparr>users := (users s)(j_id d \<mapsto> ?u')\<rparr>"
            have first: "fst (auth env now1 s (Some tok)) = ?s'"
              using found False missing by (simp add: auth_store Inr)
            have "fst (auth env now2 ?s' (Some tok)) = ?s'"
            proof (rule auth_store_settled_other)
              show "jwt_verify tok (jwt_secret env) [''HS256''] now2 = Inr d" using Inr2 d2 by simp
              show "findOneUser ?s' (j_id d) (j_employeeNumber d) = Some ?u'"
                using found by (rule findOneUser_upd)
              show "role ?u' \<noteq> ''admin''" using False by simp
              have "missingPermissions ?s' ?u' = missingPermissions s ?u'"
                by (rule missingPermissions_catalog_only) simp
              also have "\<dots> = []" using dist by (rule missingPermissions_after_push)
              finally show "missingPermissions ?s' ?u' = []" .
            qed
            then show ?thesis unfolding Some first .
          qed
        qed
      qed
    qed
  qed
qed

text \<open>
  The employee without grants: the first request stores thirteen permissions, the second
  changes nothing.
\<close>

theorem auth_idempotent_witness:
  "distinct (map pid (catalog ex_store))
   \<and> (100::nat) \<le> 160
   \<and> map_option permissions (users ex_store 203) = Some []
   \<and> map_option permissions
        (users (fst (auth None 100 ex_store (Some (ex_token 203 ''E002'' ''employee'' 1000)))) 203)
       = Some [101, 102, 103, 104, 105, 106, 107, 108, 109, 110, 111, 112, 113]
   \<and> fst (auth None 160
            (fst (auth None 100 ex_store (Some (ex_token 203 ''E002'' ''employee'' 1000))))
            (Some (ex_token 203 ''E002'' ''employee'' 1000)))
       = fst (auth None 100 ex_store (Some (ex_token 203 ''E002'' ''employee'' 1000)))"
proof -
  have h1: "distinct (map pid (catalog ex_store))" by (simp add: ex_store_def ex_pids)
  have h2: "(100::nat) \<le> 160" by simp
  have b: "map_option permissions (users ex_store 203) = Some []"
    by (simp add: ex_store_def ex_legacy_def)
  have a: "map_option permissions
        (users (fst (auth None 100 ex_store (Some (ex_token 203 ''E002'' ''employee'' 1000)))) 203)
       = Some [101, 102, 103, 104, 105, 106, 107, 108, 109, 110, 111, 112, 113]"
    unfolding ex_legacy_auth by (simp add: ex_legacy_pushed)
  from auth_idempotent [OF h1 h2, of None "Some (ex_token 203 ''E002'' ''employee'' 1000)"] h1 h2 a b
  show ?thesis by simp
qed

section \<open>Token verification and identity resolution\<close>

text \<open>
  Against C8 as stated (an expired token is rejected with an error of its own, distinct
  from the one for malformed tokens): on the concrete store, a token that expired one
  second ago is rejected with \<open>401 INVALID_TOKEN\<close>, the code a malformed token is
  rejected with.
\<close>

theorem auth_expired_not_distinct:
  "jwt_verify (ex_token 202 ''E001'' ''employee'' 99) (jwt_secret None) [''HS256''] 100
     = Inl TokenExpiredError
   \<and> snd (auth None 100 ex_store (Some (ex_token 202 ''E001'' ''employee'' 99)))
     = Respond (Response 401 (Some INVALID_TOKEN))
   \<and> snd (auth None 100 ex_store (Some Malformed))
     = Respond (Response 401 (Some INVALID_TOKEN))"
  by (simp add: auth_def ex_token_def jwt_secret_def)

text \<open>
  C8, as the code has it. A token whose expiry time has passed is rejected, and the store
  is left alone; the rejection is \<open>401 INVALID_TOKEN\<close>, the very response a malformed
  token gets. The middleware has one \<open>catch\<close> for everything \<open>jwt.verify\<close> throws and no
  code of its own for expiry.
\<close>

theorem auth_expired_is_invalid_token:
  assumes "jwt_verify tok (jwt_secret env) [''HS256''] now = Inl TokenExpiredError"
  shows "auth env now s (Some tok) = (s, Respond (Response 401 (Some INVALID_TOKEN)))
         \<and> auth env now s (Some tok) = auth env now s (Some Malformed)"
  using assms by (simp add: auth_def)

theorem auth_expired_is_invalid_token_witness:
  "jwt_verify (ex_token 201 ''AC000001'' ''admin'' 100) (jwt_secret None) [''HS256''] 100
     = Inl TokenExpiredError
   \<and> auth None 100 ex_store (Some (ex_token 201 ''AC000001'' ''admin'' 100))
       = (ex_store, Respond (Response 401 (Some INVALID_TOKEN)))
   \<and> auth None 100 ex_store (Some (ex_token 201 ''AC000001'' ''admin'' 100))
       = auth None 100 ex_store (Some Malformed)"
proof -
  have h: "jwt_verify (ex_token 201 ''AC000001'' ''admin'' 100) (jwt_secret None) [''HS256''] 100
      = Inl TokenExpiredError"
    by (simp add: ex_token_def jwt_secret_def)
  from auth_expired_is_invalid_token [OF h, of ex_store] h show ?thesis by blast
qed

text \<open>
  C10. After verification the account is looked up by the token's account id and its
  employee number together: when the account with that id exists but its stored employee
  number is not the token's, the request is rejected with \<open>401 USER_NOT_FOUND\<close> and
  nothing is written.
\<close>

theorem auth_employeeNumber_mismatch:
  assumes "jwt_verify tok (jwt_secret env) [''HS256''] now = Inr d"
      and "users s (j_id d) = Some u"
      and "employeeNumber u \<noteq> j_employeeNumber d"
  shows "auth env now s (Some tok) = (s, Respond (Response 401 (Some USER_NOT_FOUND)))"
  using assms by (simp add: auth_def findOneUser_def)

theorem auth_employeeNumber_mismatch_witness:
  "jwt_verify (ex_token 202 ''E999'' ''employee'' 1000) (jwt_secret None) [''HS256''] 100
     = Inr \<lparr>j_id = 202, j_employeeNumber = ''E999'', j_role = ''employee'', j_permissions = []\<rparr>
   \<and> users ex_store 202 = Some ex_employee
   \<and> employeeNumber ex_employee = ''E001''
   \<and> auth None 100 ex_store (Some (ex_token 202 ''E999'' ''employee'' 1000))
       = (ex_store, Respond (Response 401 (Some USER_NOT_FOUND)))"
proof -
  let ?d = "\<lparr>j_id = 202, j_employeeNumber = ''E999'', j_role = ''employee'', j_permissions = []\<rparr>"
  have h1: "jwt_verify (ex_token 202 ''E999'' ''employee'' 1000) (jwt_secret None) [''HS256''] 100
      = Inr ?d"
    by (simp add: ex_verify)
  have h2: "users ex_store (j_id ?d) = Some ex_employee" by (simp add: ex_store_def)
  have h3: "employeeNumber ex_employee \<noteq> j_employeeNumber ?d" by (simp add: ex_employee_def)
  have e: "employeeNumber ex_employee = ''E001''" by (simp add: ex_employee_def)
  from auth_employeeNumber_mismatch [OF h1 h2 h3] h1 h2 e show ?thesis by simp
qed

section \<open>The permission predicates\<close>

lemma list_ex_matchesPermission:
  "list_ex (\<lambda>p. matchesPermission p n) ps
     = (PName n \<in> set ps \<or> (\<exists>d. PDoc d \<in> set ps \<and> pname d = n))"
proof (induction ps)
  case Nil
  then show ?case by simp
next
  case (Cons p ps)
  then show ?case by (cases p) auto
qed

text \<open>
  C9. \<open>hasPermission(name)\<close> never consults the role. For an identity with a permission
  array it calls \<open>next()\<close> exactly when some entry matches the name, a string entry by
  equality and a document by its \<open>name\<close> field; otherwise it answers
  \<open>403 PERMISSION_DENIED\<close>; and changing the identity's role to anything, \<open>admin\<close>
  included, changes nothing.
\<close>

theorem hasPermission_ignores_role:
  assumes "user req = Some u" and "r_permissions u = Some ps"
  shows "(hasPermission n req = Next ())
           = (PName n \<in> set ps \<or> (\<exists>d. PDoc d \<in> set ps \<and> pname d = n))
         \<and> (hasPermission n req = Next ()
              \<or> hasPermission n req = Respond (Response 403 (Some PERMISSION_DENIED)))
         \<and> hasPermission n (req\<lparr>user := Some (u\<lparr>r_role := r\<rparr>)\<rparr>) = hasPermission n req"
  using assms by (simp add: hasPermission_def list_ex_matchesPermission [symmetric])

text \<open>
  The admin of the concrete store, holding the whole catalog: no document is named
  \<open>admin\<close>, so \<open>hasPermission('admin')\<close> denies it; \<open>manage_users\<close> is there, so that passes.
\<close>

theorem hasPermission_ignores_role_witness:
  "user ex_admin_request = Some ex_admin_identity
   \<and> r_permissions ex_admin_identity = Some (map PDoc ex_catalog)
   \<and> r_role ex_admin_identity = ''admin''
   \<and> hasPermission ''admin'' ex_admin_request = Respond (Response 403 (Some PERMISSION_DENIED))
   \<and> hasPermission ''manage_users'' ex_admin_request = Next ()"
proof -
  let ?denied = "Respond (Response 403 (Some PERMISSION_DENIED)) :: unit outcome"
  have h1: "user ex_admin_request = Some ex_admin_identity" by (simp add: ex_admin_request_def)
  have h2: "r_permissions ex_admin_identity = Some (map PDoc ex_catalog)"
    by (simp add: ex_admin_identity_def)
  have h3: "r_role ex_admin_identity = ''admin''" by (simp add: ex_admin_identity_def)
  have no_l: "\<not> list_ex (\<lambda>p. matchesPermission p ''admin'') (map PDoc ex_catalog)"
    by (simp add: ex_catalog_eval)
  have yes_l: "list_ex (\<lambda>p. matchesPermission p ''manage_users'') (map PDoc ex_catalog)"
    by (simp add: ex_catalog_eval)
  note wa = hasPermission_ignores_role [OF h1 h2, of "''admin''" "''admin''"]
  note wm = hasPermission_ignores_role [OF h1 h2, of "''manage_users''" "''admin''"]
  have a: "hasPermission ''admin'' ex_admin_request = ?denied"
  proof -
    from wa have e: "(hasPermission ''admin'' ex_admin_request = Next ())
        = list_ex (\<lambda>p. matchesPermission p ''admin'') (map PDoc ex_catalog)"
      unfolding list_ex_matchesPermission [symmetric] by (rule conjunct1)
    from wa have alt: "hasPermission ''admin'' ex_admin_request = Next ()
        \<or> hasPermission ''admin'' ex_admin_request = ?denied"
      by (rule conjunct1 [OF conjunct2])
    have n: "hasPermission ''admin'' ex_admin_request \<noteq> Next ()"
    proof
      assume "hasPermission ''admin'' ex_admin_request = Next ()"
      with e have "list_ex (\<lambda>p. matchesPermission p ''admin'') (map PDoc ex_catalog)"
        by (rule iffD1)
      with no_l show False by (rule notE)
    qed
    from alt show ?thesis
    proof
      assume "hasPermission ''admin'' ex_admin_request = Next ()"
      with n show ?thesis by (rule notE)
    next
      assume "hasPermission ''admin'' ex_admin_request = ?denied"
      then show ?thesis .
    qed
  qed
  have b: "hasPermission ''manage_users'' ex_admin_request = Next ()"
  proof -
    from wm have e: "(hasPermission ''manage_users'' ex_admin_request = Next ())
        = list_ex (\<lambda>p. matchesPermission p ''manage_users'') (map PDoc ex_catalog)"
      unfolding list_ex_matchesPermission [symmetric] by (rule conjunct1)
    from e yes_l show ?thesis by (rule iffD2)
  qed
  from h1 h2 h3 a b show ?thesis by (intro conjI)
qed

section \<open>The guards, route by route\<close>

text \<open>
  C4. The claim: the guard of the revert operation admits every identity whose role is
  \<open>admin\<close>. The route, commented \<open>admin only\<close>, is guarded by \<open>hasPermission('admin')\<close>, which
  looks for a permission named \<open>admin\<close> and never at the role. On the concrete store the
  admin, who holds the whole seeded catalog after \<open>auth\<close>, is answered
  \<open>403 PERMISSION_DENIED\<close>.
\<close>

theorem revert_denies_admin:
  "snd (delivered_revert_route None 100 ex_store
          (Some (ex_token 201 ''AC000001'' ''admin'' 1000)) 301)
     = Respond (Response 403 (Some PERMISSION_DENIED))
   \<and> role ex_admin = ''admin''
   \<and> deliveredItems ex_store 301 = Some \<lparr>foundBy = 201, archived = False\<rparr>"
proof -
  have "list_ex (\<lambda>p. matchesPermission p ''admin'') (map PDoc ex_catalog) = False"
    by (simp add: ex_catalog_eval)
  then show ?thesis
    by (simp add: delivered_revert_route_def ex_admin_auth delivered_revert_guard_def
          hasPermission_def and_then_def) (simp add: ex_admin_def ex_store_def)
qed

lemma andMatches_eq: "n \<noteq> [] \<Longrightarrow> andMatches p n = matchesPermission p n"
  by (cases p) auto

lemma list_ex_andMatches:
  "n \<noteq> [] \<Longrightarrow> list_ex (\<lambda>p. andMatches p n) ps = list_ex (\<lambda>p. matchesPermission p n) ps"
  by (simp add: andMatches_eq)

lemma list_ex_two: "list_ex (\<lambda>p. P p \<or> Q p) ps = (list_ex P ps \<or> list_ex Q ps)"
  by (induction ps) auto

text \<open>
  The delete and edit routes of the delivered items do follow the composite formula: the
  \<open>hasAnyPermission\<close> middleware and the check inside the handler together admit exactly
  an admin, a holder of \<open><action>_all_items\<close>, or a holder of \<open><action>_own_items\<close> who
  found the item.
\<close>

lemma delivered_guards_formula:
  assumes "user req = Some u" and "deliveredItems s i = Some it"
  shows "(delivered_delete_guard s req i = Next ()) = canActOnResource u ''delete'' (foundBy it)
       \<and> (delivered_put_guard s req i = Next ()) = canActOnResource u ''edit'' (foundBy it)"
proof
  show "(delivered_delete_guard s req i = Next ()) = canActOnResource u ''delete'' (foundBy it)"
    using assms
    by (auto simp: delivered_delete_guard_def delivered_delete_check_def and_then_def
          hasAnyPermission_def someMatch_def canActOnResource_def HasPermission_def
          checkOwnership_def list_ex_two list_ex_andMatches Let_def
          split: option.splits)
  show "(delivered_put_guard s req i = Next ()) = canActOnResource u ''edit'' (foundBy it)"
    using assms
    by (auto simp: delivered_put_guard_def delivered_put_check_def and_then_def
          hasAnyPermission_def someMatch_def canActOnResource_def HasPermission_def
          checkOwnership_def list_ex_two list_ex_andMatches Let_def
          split: option.splits)
qed

text \<open>
  C5. The claim: for every identity and every item, the delete and edit guards admit the
  request exactly when the composite formula holds. The delivered-item routes do; the
  lost-item routes of items.routes.ts run \<open>auth\<close> alone. On the concrete store the
  employee, who is no admin, holds neither \<open>delete_all_items\<close> nor \<open>edit_all_items\<close> and
  did not find item 401, is let through to delete it and to overwrite it.
\<close>

theorem items_guards_admit_stranger:
  "items_delete_guard ex_store \<lparr>user = Some ex_identity, token = None\<rparr> 401 = Next ()
   \<and> items_put_guard ex_store \<lparr>user = Some ex_identity, token = None\<rparr> 401 = Next ()
   \<and> lostItems ex_store 401 = Some \<lparr>foundBy = 201, archived = False\<rparr>
   \<and> \<not> canActOnResource ex_identity ''delete'' 201
   \<and> \<not> canActOnResource ex_identity ''edit'' 201"
  by (simp add: items_delete_guard_def items_put_guard_def ex_store_def canActOnResource_def
        HasPermission_def checkOwnership_def ex_identity_eval)

section \<open>Deleting a permission\<close>

lemma updateMany_pull_removes:
  assumes "updateMany_pull us i k = Some u"
  shows "i \<notin> set (permissions u)"
proof -
  from assms obtain v where v: "us k = Some v"
    and u: "u = (if i \<in> set (permissions v)
                 then v\<lparr>permissions := removeAll i (permissions v)\<rparr> else v)"
    by (auto simp: updateMany_pull_def)
  show ?thesis
  proof (cases "i \<in> set (permissions v)")
    case True
    with u have "permissions u = removeAll i (permissions v)" by simp
    then show ?thesis by simp
  next
    case False
    with u show ?thesis by simp
  qed
qed

lemma permission_delete_handler_pulls:
  assumes "permission_delete_handler s req i = (s', Response 200 None)"
      and "users s' k = Some u"
  shows "i \<notin> set (permissions u)"
  using assms
  by (auto simp: permission_delete_handler_def findByIdAndDelete_def
           dest!: findPermissionById_pid updateMany_pull_removes
           split: option.splits if_splits prod.splits)

text \<open>
  C7. Deleting a permission pulls its reference out of every account: after a delete
  that succeeded (the route answered 200), no account's grant set holds the deleted
  permission's \<open>_id\<close>, the requesting admin's included, whose grants \<open>auth\<close> had just
  refreshed to the whole catalog.
\<close>

theorem permission_delete_no_dangling:
  assumes "permission_delete_route env now s header i = (s', Response 200 None)"
      and "users s' k = Some u"
  shows "i \<notin> set (permissions u)"
  using assms
  by (auto simp: permission_delete_route_def
           dest: permission_delete_handler_pulls auth_response_not_200
           split: prod.splits outcome.splits)

lemma ex_delete_route:
  "permission_delete_route None 100 ex_store (Some (ex_token 201 ''AC000001'' ''admin'' 1000)) 108
     = (ex_store\<lparr>users := updateMany_pull
                   ((users ex_store)(201 \<mapsto> ex_admin\<lparr>permissions := map pid ex_catalog\<rparr>)) 108,
                 catalog := remove1 \<lparr>pid = 108, pname = ''delete_own_items''\<rparr> ex_catalog\<rparr>,
        Response 200 None)"
proof -
  have f: "findPermissionById ex_catalog 108 = Some \<lparr>pid = 108, pname = ''delete_own_items''\<rparr>"
    by (simp add: ex_catalog_eval findPermissionById_def)
  have c: "catalog ex_store = ex_catalog" by (simp add: ex_store_def)
  have r: "role ex_admin = ''admin''" by (simp add: ex_admin_def)
  show ?thesis
    by (simp add: permission_delete_route_def ex_admin_auth permission_delete_handler_def
          findByIdAndDelete_def f c r)
qed

text \<open>
  The admin of the concrete store deletes \<open>delete_own_items\<close>, which the employee holds:
  the employee's stored grants lose it.
\<close>

theorem permission_delete_no_dangling_witness:
  "snd (permission_delete_route None 100 ex_store
          (Some (ex_token 201 ''AC000001'' ''admin'' 1000)) 108) = Response 200 None
   \<and> 108 \<in> set (permissions ex_employee)
   \<and> users (fst (permission_delete_route None 100 ex_store
                   (Some (ex_token 201 ''AC000001'' ''admin'' 1000)) 108)) 202
       = Some (ex_employee\<lparr>permissions := [101, 103, 104, 106, 111, 112]\<rparr>)
   \<and> 108 \<notin> set (permissions (ex_employee\<lparr>permissions := [101, 103, 104, 106, 111, 112]\<rparr>))"
proof -
  let ?route = "permission_delete_route None 100 ex_store
                  (Some (ex_token 201 ''AC000001'' ''admin'' 1000)) 108"
  have h1: "?route = (fst ?route, Response 200 None)" by (simp add: ex_delete_route)
  have h2: "users (fst ?route) 202
      = Some (ex_employee\<lparr>permissions := [101, 103, 104, 106, 111, 112]\<rparr>)"
    unfolding ex_delete_route by (simp add: updateMany_pull_def ex_store_def ex_employee_def)
  have m: "108 \<in> set (permissions ex_employee)" by (simp add: ex_employee_def)
  have s: "snd ?route = Response 200 None" by (simp add: ex_delete_route)
  from permission_delete_no_dangling [OF h1 h2] h2 m s show ?thesis by simp
qed

end
